theory Spec2Isabelle
  imports Complex_Main "HOL-Library.Word"
begin

section \<open>Values and errors\<close>

text \<open>
  The program is \<^verbatim>\<open>perlin_art.py\<close>. Its coordinates are \<^verbatim>\<open>np.float64\<close> values; they are
  modelled as \<^typ>\<open>real\<close> numbers, so rounding, infinities and NaN are outside the model.
  The one place where a non-finite value decides a result (a division by zero in the
  circle test) is written out in \<open>within_PLine\<close> below.

  Every exception the modelled code can raise is a constructor of \<open>error\<close>; a function
  that can raise returns \<open>error + 'a\<close> with \<open>Inl\<close> for the exception.
\<close>

datatype error = AssertionError | IndexError | TypeError | ValueError | NotImplementedError

text \<open>\<^verbatim>\<open>int(v)\<close> of a float truncates toward zero.\<close>

definition py_int :: "real \<Rightarrow> int" where
  "py_int r = (if 0 \<le> r then \<lfloor>r\<rfloor> else \<lceil>r\<rceil>)"

section \<open>rgba2rgb\<close>

text \<open>
  \<^verbatim>\<open>if alpha:\<close> tests truthiness: \<^verbatim>\<open>None\<close> and \<^verbatim>\<open>0\<close> both take the \<^verbatim>\<open>else\<close> branch.
  The assertion is \<^verbatim>\<open>len(color) == 4\<close>. \<^verbatim>\<open>color[-1]\<close> is then the fourth channel.
  The reads \<^verbatim>\<open>background[0..2]\<close> and \<^verbatim>\<open>color[0..2]\<close> raise IndexError on a shorter sequence.
\<close>

definition truthy :: "'a::zero option \<Rightarrow> bool" where
  "truthy v = (case v of None \<Rightarrow> False | Some a \<Rightarrow> a \<noteq> 0)"

definition rgba2rgb :: "real list \<Rightarrow> real list \<Rightarrow> real option \<Rightarrow> error + (int \<times> int \<times> int)" where
  "rgba2rgb color background alpha =
     (if \<not> truthy alpha \<and> length color \<noteq> 4 then Inl AssertionError
      else
        let a = (if truthy alpha then the alpha else color ! 3) in
        if length background < 3 \<or> length color < 3 then Inl IndexError
        else
          let r = py_int (((1 - a) * (background ! 0)) + (a * (color ! 0)));
              g = py_int (((1 - a) * (background ! 1)) + (a * (color ! 1)));
              b = py_int (((1 - a) * (background ! 2)) + (a * (color ! 2)))
          in Inr (r, g, b))"

section \<open>PLine\<close>

record PLine =
  x :: real
  y :: real
  xi :: real
  yi :: real
  xo :: real
  yo :: real
  xinc :: real
  yinc :: real
  z :: int

text \<open>
  \<^verbatim>\<open>np.random.randint(lo, hi)\<close> is a library call. Its results are taken from a stream
  \<open>rng\<close> of raw draws, reduced into the half-open range \<open>[lo, hi)\<close> the library promises;
  the position in the stream is threaded through every function that draws.
\<close>

definition randint :: "(nat \<Rightarrow> nat) \<Rightarrow> int \<Rightarrow> int \<Rightarrow> nat \<Rightarrow> int \<times> nat" where
  "randint rng lo hi k = (lo + int (rng k) mod (hi - lo), Suc k)"

definition PLine_init :: "(nat \<Rightarrow> nat) \<Rightarrow> real \<times> real \<Rightarrow> nat \<Rightarrow> PLine \<times> nat" where
  "PLine_init rng center k =
     (let (vx, k1) = randint rng (-10) 10 k;
          (vy, k2) = randint rng (-10) 10 k1;
          (vz, k3) = randint rng (-10) 10 k2
      in (\<lparr>x = fst center, y = snd center,
           xi = fst center, yi = snd center,
           xo = fst center, yo = snd center,
           xinc = real_of_int vx, yinc = real_of_int vy, z = vz\<rparr>, k3))"

text \<open>
  \<^verbatim>\<open>time.time()\<close> is read from a stream \<open>clock\<close> of successive readings; \<open>timedelta\<close> takes the
  reading it was given. \<^verbatim>\<open>noise.pnoise3\<close> is a library function and a parameter of the model.
  \<open>PLine.perlin_move\<close> calls \<^verbatim>\<open>self.timedelta()\<close> twice, so it consumes two readings.
\<close>

definition timedelta :: "PLine \<Rightarrow> real \<Rightarrow> real" where
  "timedelta p now = now * 0.0001 - real_of_int (z p)"

definition PLine_perlin_move ::
  "(real \<Rightarrow> real \<Rightarrow> real \<Rightarrow> real) \<Rightarrow> (nat \<Rightarrow> real) \<Rightarrow> PLine \<Rightarrow> nat \<Rightarrow> PLine \<times> nat" where
  "PLine_perlin_move pnoise3 clock p n =
     (let px = pnoise3 (x p * 0.01) (y p * 0.01) (timedelta p (clock n));
          py = pnoise3 (y p * 0.01) (x p * 0.01) (timedelta p (clock (Suc n)));
          p1 = p\<lparr>xinc := xinc p + px\<rparr>;
          p2 = p1\<lparr>yinc := yinc p1 + py\<rparr>;
          p3 = p2\<lparr>xi := x p2\<rparr>;
          p4 = p3\<lparr>yi := y p3\<rparr>;
          p5 = p4\<lparr>x := x p4 + xinc p4\<rparr>;
          p6 = p5\<lparr>y := y p5 + yinc p5\<rparr>
      in (p6, Suc (Suc n)))"

section \<open>PShape and the containment check\<close>

record PShape =
  plines :: "PLine list"
  xbounds :: "real \<times> real"
  ybounds :: "real \<times> real"
  shape :: string

text \<open>The positional arguments a caller can hand to \<^verbatim>\<open>within\<close>.\<close>

datatype pyobj =
    Float64 real
  | PLineObj PLine
  | Tuple2 real real
  | PyInt int
  | PyNone

text \<open>The \<^verbatim>\<open>np.float64\<close> overload: \<^verbatim>\<open>bounds[0]\<close> and \<^verbatim>\<open>bounds[1]\<close> need a subscriptable
  \<^verbatim>\<open>bounds\<close>; a NumPy scalar raises IndexError there, the other objects TypeError.\<close>

definition within_float64 :: "real \<Rightarrow> pyobj \<Rightarrow> error + bool" where
  "within_float64 position bounds =
     (case bounds of
        Tuple2 lo hi \<Rightarrow> Inr (position \<ge> lo \<and> position \<le> hi)
      | Float64 _ \<Rightarrow> Inl IndexError
      | _ \<Rightarrow> Inl TypeError)"

text \<open>
  The \<^verbatim>\<open>PLine\<close> overload. In the circle branch the denominators are the squares of
  \<^verbatim>\<open>xbounds[1]-xbounds[0]\<close> and \<^verbatim>\<open>ybounds[1]-ybounds[0]\<close>. When one of them is zero the
  \<^verbatim>\<open>np.float64\<close> quotient is \<^verbatim>\<open>inf\<close> or \<^verbatim>\<open>nan\<close>, the sum is \<^verbatim>\<open>inf\<close> or \<^verbatim>\<open>nan\<close>, and the comparison
  with 1 is false; HOL's \<open>a / 0 = 0\<close> would say otherwise, so the case is explicit.
  A shape string that is neither \<^verbatim>\<open>"rectangle"\<close> nor \<^verbatim>\<open>"circle"\<close> falls through both branches.
\<close>

definition within_PLine :: "PShape \<Rightarrow> PLine \<Rightarrow> bool" where
  "within_PLine self pline =
     (if shape self = ''rectangle'' then
        (xi pline \<ge> fst (xbounds self) \<and> xi pline \<le> snd (xbounds self)) \<and>
        (yi pline \<ge> fst (ybounds self) \<and> yi pline \<le> snd (ybounds self))
      else if shape self = ''circle'' then
        (let dw = (snd (xbounds self) - fst (xbounds self))\<^sup>2;
             dh = (snd (ybounds self) - fst (ybounds self))\<^sup>2
         in if dw = 0 \<or> dh = 0 then False
            else ((xi pline - xo pline)\<^sup>2) / dw + ((yi pline - yo pline)\<^sup>2) / dh \<le> 1)
      else False)"

text \<open>
  \<^verbatim>\<open>PShape.within\<close> is a \<^verbatim>\<open>singledispatchmethod\<close> (the name \<open>within\<close> alone is taken in
  HOL): the class of the first positional argument selects the implementation, which is
  then called with all positional arguments. The base implementation is \<^verbatim>\<open>def within(self)\<close>; reached through dispatch it always receives at
  least one extra positional argument, so the call itself raises TypeError before the body
  (\<^verbatim>\<open>raise NotImplementedError\<close>) runs. With no positional argument at all the dispatcher's
  \<^verbatim>\<open>args[0]\<close> raises IndexError.
\<close>

fun PShape_within :: "PShape \<Rightarrow> pyobj list \<Rightarrow> error + bool" where
  "PShape_within self [] = Inl IndexError"
| "PShape_within self [Float64 position, bounds] = within_float64 position bounds"
| "PShape_within self (Float64 position # _) = Inl TypeError"
| "PShape_within self [PLineObj pline] = Inr (within_PLine self pline)"
| "PShape_within self (PLineObj pline # _) = Inl TypeError"
| "PShape_within self (_ # _) = Inl TypeError"

definition supported :: "pyobj \<Rightarrow> bool" where
  "supported a = (case a of Float64 _ \<Rightarrow> True | PLineObj _ \<Rightarrow> True | _ \<Rightarrow> False)"

text \<open>\<^verbatim>\<open>PShape.__init__\<close>: one \<^verbatim>\<open>PLine\<close> per element of \<^verbatim>\<open>range(lines)\<close>, an empty range when
  \<^verbatim>\<open>lines\<close> is not positive.\<close>

fun make_plines :: "(nat \<Rightarrow> nat) \<Rightarrow> real \<times> real \<Rightarrow> nat \<Rightarrow> nat \<Rightarrow> PLine list \<times> nat" where
  "make_plines rng center 0 k = ([], k)"
| "make_plines rng center (Suc m) k =
     (let (p, k1) = PLine_init rng (fst center, snd center) k;
          (ps, k2) = make_plines rng center m k1
      in (p # ps, k2))"

definition PShape_init ::
  "(nat \<Rightarrow> nat) \<Rightarrow> real \<times> real \<Rightarrow> real \<times> real \<Rightarrow> real \<times> real \<Rightarrow> int \<Rightarrow> string \<Rightarrow> nat
     \<Rightarrow> PShape \<times> nat" where
  "PShape_init rng center xb yb lines shp k =
     (let (ps, k1) = make_plines rng center (nat lines) k
      in (\<lparr>plines = ps, xbounds = xb, ybounds = yb, shape = shp\<rparr>, k1))"

section \<open>The canvas and the draw step\<close>

text \<open>
  \<^verbatim>\<open>CANVAS\<close> is a \<^verbatim>\<open>uint8\<close> array of shape \<open>(shape0, shape1, 3)\<close>, \<open>(1000, 1000, 3)\<close> in the
  program. An integer index into an axis of size \<open>n\<close> is valid from \<open>-n\<close> to \<open>n - 1\<close> and raises
  IndexError otherwise.
\<close>

record canvas =
  shape0 :: nat
  shape1 :: nat
  pixel :: "nat \<Rightarrow> nat \<Rightarrow> 8 word \<times> 8 word \<times> 8 word"

definition np_index :: "nat \<Rightarrow> int \<Rightarrow> error + nat" where
  "np_index n i =
     (if 0 \<le> i \<and> i < int n then Inr (nat i)
      else if - int n \<le> i \<and> i < 0 then Inr (nat (int n + i))
      else Inl IndexError)"

definition canvas_get :: "canvas \<Rightarrow> int \<Rightarrow> int \<Rightarrow> error + (8 word \<times> 8 word \<times> 8 word)" where
  "canvas_get c i j =
     (case np_index (shape0 c) i of
        Inl e \<Rightarrow> Inl e
      | Inr r \<Rightarrow> (case np_index (shape1 c) j of
                   Inl e \<Rightarrow> Inl e
                 | Inr k \<Rightarrow> Inr (pixel c r k)))"

text \<open>One call of \<^verbatim>\<open>cv2.line(CANVAS, pt1, pt2, color, thickness)\<close>.\<close>

record segment =
  pt1 :: "real \<times> real"
  pt2 :: "real \<times> real"
  color :: "int \<times> int \<times> int"
  thickness :: int

text \<open>
  The state a tick of one \<^verbatim>\<open>PShape\<close> works on: the object itself, the global \<^verbatim>\<open>CANVAS\<close>, the
  calls of \<^verbatim>\<open>cv2.line\<close> made so far, and the number of \<^verbatim>\<open>time.time()\<close> readings taken.
  A procedure returns the state it leaves and the exception that ended it, if any.
  What \<^verbatim>\<open>cv2.line\<close> writes into the pixels is the parameter \<open>raster\<close>.
\<close>

record state =
  obj :: PShape
  CANVAS :: canvas
  lines_drawn :: "segment list"
  ticks :: nat

type_synonym raster_fn =
  "segment \<Rightarrow> (nat \<Rightarrow> nat \<Rightarrow> 8 word \<times> 8 word \<times> 8 word) \<Rightarrow> (nat \<Rightarrow> nat \<Rightarrow> 8 word \<times> 8 word \<times> 8 word)"

definition cv2_line :: "raster_fn \<Rightarrow> segment \<Rightarrow> state \<Rightarrow> state" where
  "cv2_line raster seg s =
     s\<lparr>CANVAS := (CANVAS s)\<lparr>pixel := raster seg (pixel (CANVAS s))\<rparr>,
       lines_drawn := lines_drawn s @ [seg]\<rparr>"

text \<open>
  \<^verbatim>\<open>PShape.perlin_move(pline)\<close>, for the point at index \<open>i\<close> of \<^verbatim>\<open>self.plines\<close>. The arguments of
  \<^verbatim>\<open>cv2.line\<close> are evaluated before the call: the pixel read \<^verbatim>\<open>CANVAS[int(pline.yi)][int(pline.xi)]\<close>
  and \<^verbatim>\<open>rgba2rgb\<close> can raise, and then nothing is drawn. The end points are handed over as
  \<^verbatim>\<open>np.float32\<close>; the model keeps the real coordinates.
\<close>

definition PShape_perlin_move :: "raster_fn \<Rightarrow> nat \<Rightarrow> state \<Rightarrow> state \<times> error option" where
  "PShape_perlin_move raster i s =
     (let self = obj s; pline = plines self ! i; cv = CANVAS s in
      case PShape_within self [Float64 (xi pline), Tuple2 0 (real (shape0 cv))] of
        Inl e \<Rightarrow> (s, Some e)
      | Inr inx \<Rightarrow>
          if \<not> inx then (s, None)
          else
            (case PShape_within self [Float64 (yi pline), Tuple2 0 (real (shape1 cv))] of
               Inl e \<Rightarrow> (s, Some e)
             | Inr iny \<Rightarrow>
                 if \<not> iny then (s, None)
                 else
                   (case PShape_within self [PLineObj pline] of
                      Inl e \<Rightarrow> (s, Some e)
                    | Inr inshape \<Rightarrow>
                        if \<not> inshape then (s, None)
                        else
                          (case canvas_get cv (py_int (yi pline)) (py_int (xi pline)) of
                             Inl e \<Rightarrow> (s, Some e)
                           | Inr (c0, c1, c2) \<Rightarrow>
                               (case rgba2rgb [255, 255, 255, 0.2]
                                       [real_of_int (uint c0), real_of_int (uint c1),
                                        real_of_int (uint c2)] None of
                                  Inl e \<Rightarrow> (s, Some e)
                                | Inr col \<Rightarrow>
                                    (cv2_line raster
                                       \<lparr>pt1 = (xi pline, yi pline), pt2 = (x pline, y pline),
                                        color = col, thickness = 1\<rparr> s, None))))))"

text \<open>\<^verbatim>\<open>pline()\<close> on the point at index \<open>i\<close>: \<^verbatim>\<open>PLine.__call__\<close> runs \<^verbatim>\<open>PLine.perlin_move\<close>.\<close>

definition PLine_call ::
  "(real \<Rightarrow> real \<Rightarrow> real \<Rightarrow> real) \<Rightarrow> (nat \<Rightarrow> real) \<Rightarrow> nat \<Rightarrow> state \<Rightarrow> state" where
  "PLine_call pnoise3 clock i s =
     (let (p, n) = PLine_perlin_move pnoise3 clock (plines (obj s) ! i) (ticks s)
      in s\<lparr>obj := (obj s)\<lparr>plines := (plines (obj s))[i := p]\<rparr>, ticks := n\<rparr>)"

text \<open>\<^verbatim>\<open>PShape.__call__\<close>: the \<^verbatim>\<open>for\<close> loop over \<^verbatim>\<open>self.plines\<close>, by index; an exception ends it.\<close>

primrec call_loop ::
  "raster_fn \<Rightarrow> (real \<Rightarrow> real \<Rightarrow> real \<Rightarrow> real) \<Rightarrow> (nat \<Rightarrow> real) \<Rightarrow> nat list \<Rightarrow> state
     \<Rightarrow> state \<times> error option" where
  "call_loop raster pnoise3 clock [] s = (s, None)"
| "call_loop raster pnoise3 clock (i # rest) s =
     (case PShape_perlin_move raster i s of
        (s1, Some e) \<Rightarrow> (s1, Some e)
      | (s1, None) \<Rightarrow> call_loop raster pnoise3 clock rest (PLine_call pnoise3 clock i s1))"

definition PShape_call ::
  "raster_fn \<Rightarrow> (real \<Rightarrow> real \<Rightarrow> real \<Rightarrow> real) \<Rightarrow> (nat \<Rightarrow> real) \<Rightarrow> state \<Rightarrow> state \<times> error option" where
  "PShape_call raster pnoise3 clock s =
     call_loop raster pnoise3 clock [0..<length (plines (obj s))] s"

text \<open>\<open>k\<close> successive calls of \<^verbatim>\<open>pline()\<close> on one point.\<close>

primrec advance_n ::
  "(real \<Rightarrow> real \<Rightarrow> real \<Rightarrow> real) \<Rightarrow> (nat \<Rightarrow> real) \<Rightarrow> nat \<Rightarrow> PLine \<Rightarrow> nat \<Rightarrow> PLine \<times> nat" where
  "advance_n pnoise3 clock 0 p n = (p, n)"
| "advance_n pnoise3 clock (Suc k) p n =
     (let (p1, n1) = PLine_perlin_move pnoise3 clock p n in advance_n pnoise3 clock k p1 n1)"

section \<open>grid\<close>

text \<open>
  \<^verbatim>\<open>np.linspace(start, stop, num)\<close>: \<open>num\<close> evenly spaced samples with both ends included,
  \<open>[start]\<close> for one sample, ValueError for a negative count.
\<close>

definition linspace :: "real \<Rightarrow> real \<Rightarrow> int \<Rightarrow> error + real list" where
  "linspace start stop num =
     (if num < 0 then Inl ValueError
      else if num = 1 then Inr [start]
      else Inr (map (\<lambda>j. start + real j * ((stop - start) / real_of_int (num - 1)))
                  [0..<nat num]))"

text \<open>The two nested \<^verbatim>\<open>for\<close> loops; \<^verbatim>\<open>np.random.randint(20,80)\<close> is drawn before the
  \<^verbatim>\<open>PShape\<close> is built.\<close>

primrec grid_column ::
  "(nat \<Rightarrow> nat) \<Rightarrow> real \<Rightarrow> real list \<Rightarrow> real \<Rightarrow> real \<Rightarrow> string \<Rightarrow> nat \<Rightarrow> PShape list \<times> nat" where
  "grid_column rng cx [] hx hy shp k = ([], k)"
| "grid_column rng cx (cy # rest) hx hy shp k =
     (let (lines, k1) = randint rng 20 80 k;
          (sh, k2) = PShape_init rng (cx, cy) (cx - hx, cx + hx) (cy - hy, cy + hy) lines shp k1;
          (more, k3) = grid_column rng cx rest hx hy shp k2
      in (sh # more, k3))"

primrec grid_rows ::
  "(nat \<Rightarrow> nat) \<Rightarrow> real list \<Rightarrow> real list \<Rightarrow> real \<Rightarrow> real \<Rightarrow> string \<Rightarrow> nat \<Rightarrow> PShape list \<times> nat" where
  "grid_rows rng [] yspace hx hy shp k = ([], k)"
| "grid_rows rng (cx # rest) yspace hx hy shp k =
     (let (col, k1) = grid_column rng cx yspace hx hy shp k;
          (more, k2) = grid_rows rng rest yspace hx hy shp k1
      in (col @ more, k2))"

text \<open>
  \<^verbatim>\<open>grid\<close>. \<^verbatim>\<open>if n:\<close> and \<^verbatim>\<open>assert rows and columns\<close> test truthiness, so \<^verbatim>\<open>None\<close> and \<^verbatim>\<open>0\<close> count as
  not given. \<^verbatim>\<open>margin\<close> defaults to \<^verbatim>\<open>None\<close>, and \<^verbatim>\<open>0+margin\<close> then raises TypeError.
\<close>

definition grid ::
  "canvas \<Rightarrow> (nat \<Rightarrow> nat) \<Rightarrow> int option \<Rightarrow> int option \<Rightarrow> int option \<Rightarrow> real option
     \<Rightarrow> real \<Rightarrow> real \<Rightarrow> string \<Rightarrow> nat \<Rightarrow> error + (PShape list \<times> nat)" where
  "grid cv rng n rows columns margin hx hy shp k =
     (if \<not> truthy n \<and> \<not> (truthy rows \<and> truthy columns) then Inl AssertionError
      else
        case margin of
          None \<Rightarrow> Inl TypeError
        | Some m \<Rightarrow>
            (case linspace (0 + m) (real (shape0 cv) - m) (if truthy n then the n else the columns) of
               Inl e \<Rightarrow> Inl e
             | Inr xspace \<Rightarrow>
                 (case linspace (0 + m) (real (shape1 cv) - m) (if truthy n then the n else the rows) of
                    Inl e \<Rightarrow> Inl e
                  | Inr yspace \<Rightarrow> Inr (grid_rows rng xspace yspace hx hy shp k))))"

section \<open>Concrete inputs and the claimed post-state\<close>

text \<open>A point whose previous position is 150 to the right of its anchor.\<close>

definition edge_point :: PLine where
  "edge_point = \<lparr>x = 660, y = 500, xi = 650, yi = 500, xo = 500, yo = 500,
                  xinc = 10, yinc = 0, z = 0\<rparr>"

definition start_point :: PLine where
  "start_point = \<lparr>x = 500, y = 500, xi = 500, yi = 500, xo = 500, yo = 500,
                   xinc = 3, yinc = -4, z = 0\<rparr>"

definition triangle_shape :: PShape where
  "triangle_shape = \<lparr>plines = [], xbounds = (400, 600), ybounds = (400, 600), shape = ''triangle''\<rparr>"

text \<open>The canvas of the program, \<^verbatim>\<open>np.zeros((1000, 1000, 3), np.uint8)\<close>.\<close>

definition canvas1000 :: canvas where
  "canvas1000 = \<lparr>shape0 = 1000, shape1 = 1000, pixel = (\<lambda>_ _. (0, 0, 0))\<rparr>"

text \<open>
  A freshly built rectangle shape of one point, centred at \<open>(1000, 500)\<close> with half-extents
  100, on the empty canvas: what \<^verbatim>\<open>grid(n=3, margin=0)\<close> builds on the far edge.
\<close>

definition border_state :: "(nat \<Rightarrow> nat) \<Rightarrow> state" where
  "border_state rng =
     \<lparr>obj = fst (PShape_init rng (1000, 500) (1000 - 100, 1000 + 100) (500 - 100, 500 + 100) 1
                   ''rectangle'' 0),
      CANVAS = canvas1000, lines_drawn = [], ticks = 0\<rparr>"

text \<open>A shape of one point that moved from \<open>(500, 500)\<close> to \<open>(503, 496)\<close> inside its region.\<close>

definition inside_state :: state where
  "inside_state =
     \<lparr>obj = \<lparr>plines = [start_point\<lparr>x := 503, y := 496\<rparr>], xbounds = (400, 600),
             ybounds = (400, 600), shape = ''rectangle''\<rparr>,
      CANVAS = canvas1000, lines_drawn = [], ticks = 0\<rparr>"

text \<open>
  What is claimed of a group that \<^verbatim>\<open>grid\<close> places at the centre \<open>c\<close>: between 20 and 79
  points, each anchored and started at \<open>c\<close>, and a region around \<open>c\<close> with the given
  half-extents and kind.
\<close>

definition group_at :: "real \<Rightarrow> real \<Rightarrow> string \<Rightarrow> real \<times> real \<Rightarrow> PShape \<Rightarrow> bool" where
  "group_at hx hy shp c s =
     (20 \<le> length (plines s) \<and> length (plines s) < 80
      \<and> list_all (\<lambda>p. xo p = fst c \<and> yo p = snd c \<and> x p = fst c \<and> y p = snd c) (plines s)
      \<and> xbounds s = (fst c - hx, fst c + hx)
      \<and> ybounds s = (snd c - hy, snd c + hy)
      \<and> shape s = shp)"

text \<open>A noise field with values in \<open>[-1, 1]\<close> that depends on its third argument only.\<close>

definition clamp_noise :: "real \<Rightarrow> real \<Rightarrow> real \<Rightarrow> real" where
  "clamp_noise a b t = max (-1) (min 1 t)"

text \<open>
  The post-state of one advance as the specification words it, with one time input \<open>t\<close>
  for both samples. It is written from the specification, for comparison with
  \<open>PLine_perlin_move\<close>.
\<close>

definition advance_claimed :: "(real \<Rightarrow> real \<Rightarrow> real \<Rightarrow> real) \<Rightarrow> real \<Rightarrow> PLine \<Rightarrow> PLine" where
  "advance_claimed sample t p =
     (let px = sample (x p * 0.01) (y p * 0.01) t;
          py = sample (y p * 0.01) (x p * 0.01) t
      in p\<lparr>xinc := xinc p + px, yinc := yinc p + py, xi := x p, yi := y p,
           x := x p + (xinc p + px), y := y p + (yinc p + py)\<rparr>)"

section \<open>Construction\<close>

lemma PLine_init_anchor:
  "PLine_init rng center k = (p, k1) \<Longrightarrow> xo p = fst center \<and> yo p = snd center"
  by (auto simp: PLine_init_def randint_def Let_def)

lemma make_plines_anchor_eq:
  "make_plines rng center m k = (ps, k1) \<Longrightarrow> p \<in> set ps \<Longrightarrow> xo p = fst center \<and> yo p = snd center"
proof (induction m arbitrary: k ps k1)
  case 0
  then show ?case by simp
next
  case (Suc m)
  obtain q ka where q: "PLine_init rng (fst center, snd center) k = (q, ka)"
    by (cases "PLine_init rng (fst center, snd center) k")
  obtain qs kb where qs: "make_plines rng center m ka = (qs, kb)"
    by (cases "make_plines rng center m ka")
  from Suc.prems(1) q qs have ps: "ps = q # qs" by simp
  from PLine_init_anchor[OF q] have "xo q = fst center \<and> yo q = snd center" by simp
  with Suc.IH[OF qs] Suc.prems(2) ps show ?case by auto
qed

lemma make_plines_anchor:
  "p \<in> set (fst (make_plines rng center m k)) \<Longrightarrow> xo p = fst center \<and> yo p = snd center"
  using make_plines_anchor_eq[of rng center m k "fst (make_plines rng center m k)"
      "snd (make_plines rng center m k)" p] by simp

lemma make_plines_length_eq:
  "make_plines rng center m k = (ps, k1) \<Longrightarrow> length ps = m"
proof (induction m arbitrary: k ps k1)
  case 0
  then show ?case by simp
next
  case (Suc m)
  obtain q ka where q: "PLine_init rng (fst center, snd center) k = (q, ka)"
    by (cases "PLine_init rng (fst center, snd center) k")
  obtain qs kb where qs: "make_plines rng center m ka = (qs, kb)"
    by (cases "make_plines rng center m ka")
  from Suc.prems q qs have "ps = q # qs" by simp
  with Suc.IH[OF qs] show ?case by simp
qed

lemma make_plines_length: "length (fst (make_plines rng center m k)) = m"
  using make_plines_length_eq[of rng center m k "fst (make_plines rng center m k)"
      "snd (make_plines rng center m k)"] by simp

lemma PShape_init_fields:
  "xbounds (fst (PShape_init rng c xb yb lines shp k)) = xb"
  "ybounds (fst (PShape_init rng c xb yb lines shp k)) = yb"
  "shape (fst (PShape_init rng c xb yb lines shp k)) = shp"
  "plines (fst (PShape_init rng c xb yb lines shp k)) = fst (make_plines rng c (nat lines) k)"
  by (simp_all add: PShape_init_def split: prod.splits)

section \<open>The containment check\<close>

text \<open>
  C5. A \<^verbatim>\<open>PShape\<close> built with shape \<^verbatim>\<open>"rectangle"\<close> around the centre \<open>(cx, cy)\<close> with
  half-extents \<open>hx\<close>, \<open>hy\<close> answers \<^verbatim>\<open>within(p)\<close>, for every point \<open>p\<close>, with true exactly when the
  previous position of \<open>p\<close> lies in \<open>[cx - hx, cx + hx]\<close> and \<open>[cy - hy, cy + hy]\<close>, both ends
  included; and \<open>(cx, cy)\<close> is the anchor of every point the shape owns.
\<close>

theorem rectangle_within_iff:
  "PShape_within
       (fst (PShape_init rng (cx, cy) (cx - hx, cx + hx) (cy - hy, cy + hy) lines ''rectangle'' k))
       [PLineObj p]
     = Inr (cx - hx \<le> xi p \<and> xi p \<le> cx + hx \<and> cy - hy \<le> yi p \<and> yi p \<le> cy + hy)
   \<and> (\<forall>q \<in> set (plines (fst (PShape_init rng (cx, cy) (cx - hx, cx + hx) (cy - hy, cy + hy)
                                  lines ''rectangle'' k))).
         xo q = cx \<and> yo q = cy)"
proof
  show "PShape_within
       (fst (PShape_init rng (cx, cy) (cx - hx, cx + hx) (cy - hy, cy + hy) lines ''rectangle'' k))
       [PLineObj p]
     = Inr (cx - hx \<le> xi p \<and> xi p \<le> cx + hx \<and> cy - hy \<le> yi p \<and> yi p \<le> cy + hy)"
    by (simp add: within_PLine_def PShape_init_fields)
  show "\<forall>q \<in> set (plines (fst (PShape_init rng (cx, cy) (cx - hx, cx + hx) (cy - hy, cy + hy)
                                  lines ''rectangle'' k))).
         xo q = cx \<and> yo q = cy"
    using make_plines_anchor[of _ rng "(cx, cy)"] by (auto simp: PShape_init_fields)
qed

text \<open>
  The rule at a shape with one point, anchored at \<open>(500, 500)\<close> with half-extents 100: a
  previous position on the left edge, \<open>(400, 500)\<close>, is inside, and the owned point has the
  centre as its anchor.
\<close>

theorem rectangle_within_iff_witness:
  "PShape_within
       (fst (PShape_init (\<lambda>_. 0) (500, 500) (500 - 100, 500 + 100) (500 - 100, 500 + 100) 1
               ''rectangle'' 0))
       [PLineObj (start_point\<lparr>xi := 400\<rparr>)] = Inr True
   \<and> plines (fst (PShape_init (\<lambda>_. 0) (500, 500) (500 - 100, 500 + 100) (500 - 100, 500 + 100) 1
               ''rectangle'' 0)) \<noteq> []
   \<and> xo (hd (plines (fst (PShape_init (\<lambda>_. 0) (500, 500) (500 - 100, 500 + 100)
                             (500 - 100, 500 + 100) 1 ''rectangle'' 0)))) = 500
   \<and> yo (hd (plines (fst (PShape_init (\<lambda>_. 0) (500, 500) (500 - 100, 500 + 100)
                             (500 - 100, 500 + 100) 1 ''rectangle'' 0)))) = 500"
proof -
  let ?ps = "plines (fst (PShape_init (\<lambda>_. 0) (500, 500) (500 - 100, 500 + 100)
                 (500 - 100, 500 + 100) 1 ''rectangle'' 0))"
  have ne: "?ps \<noteq> []"
    by (simp add: PShape_init_def PLine_init_def randint_def Let_def)
  then have mem: "hd ?ps \<in> set ?ps" by simp
  note r = rectangle_within_iff[of "\<lambda>_. 0" 500 500 100 100 1 0 "start_point\<lparr>xi := 400\<rparr>"]
  from r have w: "PShape_within
       (fst (PShape_init (\<lambda>_. 0) (500, 500) (500 - 100, 500 + 100) (500 - 100, 500 + 100) 1
               ''rectangle'' 0))
       [PLineObj (start_point\<lparr>xi := 400\<rparr>)] = Inr True"
    by (simp add: start_point_def)
  from r mem have "xo (hd ?ps) = 500 \<and> yo (hd ?ps) = 500" by blast
  with ne w show ?thesis by simp
qed

text \<open>
  What the circle branch computes for such a shape with non-zero half-extents: the
  denominators are the squares of the full widths \<open>2 * hx\<close> and \<open>2 * hy\<close>.
\<close>

lemma circle_within_code:
  assumes "hx \<noteq> 0" "hy \<noteq> 0"
  shows "PShape_within
       (fst (PShape_init rng (cx, cy) (cx - hx, cx + hx) (cy - hy, cy + hy) lines ''circle'' k))
       [PLineObj p]
     = Inr ((xi p - xo p)\<^sup>2 / (2 * hx)\<^sup>2 + (yi p - yo p)\<^sup>2 / (2 * hy)\<^sup>2 \<le> 1)"
  using assms by (simp add: within_PLine_def PShape_init_fields Let_def)

text \<open>
  C1. The claim is that a circle shape with half-extents \<open>hx\<close>, \<open>hy\<close> contains a point exactly
  when \<open>(xi - xo)\<^sup>2 / hx\<^sup>2 + (yi - yo)\<^sup>2 / hy\<^sup>2 \<le> 1\<close>. The code divides by the squared full
  widths: for the shape centred at \<open>(500, 500)\<close> with half-extents 100 and a previous position
  \<open>(650, 500)\<close>, the claimed sum is 2.25, the position is outside \<^verbatim>\<open>xbounds\<close>, and \<^verbatim>\<open>within\<close>
  returns true.
\<close>

theorem circle_within_outside_half_extent:
  "PShape_within
       (fst (PShape_init rng (500, 500) (500 - 100, 500 + 100) (500 - 100, 500 + 100) 20
               ''circle'' k))
       [PLineObj edge_point] = Inr True
   \<and> \<not> ((xi edge_point - xo edge_point)\<^sup>2 / 100\<^sup>2
          + (yi edge_point - yo edge_point)\<^sup>2 / 100\<^sup>2 \<le> (1::real))
   \<and> \<not> (xi edge_point \<le> 500 + 100)"
  by (simp add: within_PLine_def PShape_init_fields Let_def edge_point_def)

text \<open>
  C4, as claimed: an unsupported region kind makes the containment check raise. It does
  not: with the shape tag \<^verbatim>\<open>"triangle"\<close> the check returns false.
\<close>

theorem unsupported_shape_returns_False:
  "shape triangle_shape \<noteq> ''rectangle'' \<and> shape triangle_shape \<noteq> ''circle''
   \<and> PShape_within triangle_shape [PLineObj edge_point] = Inr False"
  by (simp add: within_PLine_def triangle_shape_def)

text \<open>
  C4, amended. A first argument that is neither an \<^verbatim>\<open>np.float64\<close> nor a \<^verbatim>\<open>PLine\<close> makes the
  containment check raise TypeError, whatever follows it, so no boolean is returned; a
  region kind other than \<^verbatim>\<open>"rectangle"\<close> and \<^verbatim>\<open>"circle"\<close> raises nothing and the check
  returns false for every point.
\<close>

theorem within_unsupported:
  "(\<not> supported a \<longrightarrow> PShape_within self (a # rest) = Inl TypeError)
   \<and> (shape self \<noteq> ''rectangle'' \<and> shape self \<noteq> ''circle'' \<longrightarrow>
        PShape_within self [PLineObj p] = Inr False)"
  by (cases a) (auto simp: supported_def within_PLine_def)

theorem within_unsupported_witness:
  "\<not> supported (PyInt 5)
   \<and> PShape_within triangle_shape [PyInt 5, Tuple2 0 1000] = Inl TypeError
   \<and> shape triangle_shape \<noteq> ''rectangle'' \<and> shape triangle_shape \<noteq> ''circle''
   \<and> PShape_within triangle_shape [PLineObj start_point] = Inr False"
proof -
  have a: "\<not> supported (PyInt 5)" by (simp add: supported_def)
  have b: "shape triangle_shape \<noteq> ''rectangle'' \<and> shape triangle_shape \<noteq> ''circle''"
    by (simp add: triangle_shape_def)
  from a b within_unsupported[of "PyInt 5" triangle_shape "[Tuple2 0 1000]" start_point]
  show ?thesis by blast
qed

section \<open>rgba2rgb\<close>

text \<open>
  C9, as claimed: \<^verbatim>\<open>rgba2rgb\<close> raises exactly when the colour has fewer than 4 channels and
  no alpha is given. A colour of 5 channels with no alpha raises as well.
\<close>

theorem rgba2rgb_five_channels_raises:
  "rgba2rgb [255, 255, 255, 0.2, 7] [0, 0, 0] None = Inl AssertionError
   \<and> \<not> (length [255, 255, 255, 0.2, 7 :: real] < 4)"
  by (simp add: rgba2rgb_def truthy_def)

text \<open>An explicit alpha of zero is treated as no alpha.\<close>

lemma rgba2rgb_zero_alpha_raises:
  "rgba2rgb [255, 255, 255] [0, 0, 0] (Some 0) = Inl AssertionError"
  by (simp add: rgba2rgb_def truthy_def)

text \<open>
  C9, amended. For an alpha that is absent or non-zero, \<^verbatim>\<open>rgba2rgb\<close> raises its assertion
  exactly when no alpha is given and the colour does not have exactly 4 channels; with a
  background of at least 3 channels it returns an RGB triple when the colour has 4
  channels, and when an alpha is given and the colour has at least 3 channels.
\<close>

theorem rgba2rgb_raises_iff:
  assumes "alpha \<noteq> Some 0"
  shows "(rgba2rgb rgba bg alpha = Inl AssertionError \<longleftrightarrow> alpha = None \<and> length rgba \<noteq> 4)
       \<and> (3 \<le> length bg \<and> (length rgba = 4 \<or> (alpha \<noteq> None \<and> 3 \<le> length rgba))
            \<longrightarrow> (\<exists>r g b. rgba2rgb rgba bg alpha = Inr (r, g, b)))"
  using assms by (cases alpha) (auto simp: rgba2rgb_def truthy_def Let_def)

theorem rgba2rgb_raises_iff_witness:
  "(None :: real option) \<noteq> Some 0
   \<and> rgba2rgb [255, 255, 255] [0, 0, 0] None = Inl AssertionError
   \<and> 3 \<le> length [0, 0, 0 :: real] \<and> length [255, 255, 255, 0.2 :: real] = 4
   \<and> (\<exists>r g b. rgba2rgb [255, 255, 255, 0.2] [0, 0, 0] None = Inr (r, g, b))"
proof -
  have h: "(None :: real option) \<noteq> Some 0" by simp
  from rgba2rgb_raises_iff[OF h, of "[255, 255, 255]" "[0, 0, 0]"]
  have a: "rgba2rgb [255, 255, 255] [0, 0, 0] None = Inl AssertionError" by simp
  from rgba2rgb_raises_iff[OF h, of "[255, 255, 255, 0.2]" "[0, 0, 0]"]
  have b: "\<exists>r g b. rgba2rgb [255, 255, 255, 0.2] [0, 0, 0] None = Inr (r, g, b)" by simp
  from a b show ?thesis by simp
qed

section \<open>Advancing a point\<close>

text \<open>
  C3, as claimed: both samples of one advance take the same time input \<open>t\<close>. The two
  samples read the clock separately: with readings 1000 and 1001 and a noise field that
  depends on the time input, no single \<open>t\<close> gives the post-state.
\<close>

theorem PLine_perlin_move_two_readings:
  "\<not> (\<exists>t. fst (PLine_perlin_move clamp_noise (\<lambda>n. 1000 + real n) start_point 0)
            = advance_claimed clamp_noise t start_point)"
  by (simp add: PLine_perlin_move_def advance_claimed_def clamp_noise_def start_point_def
      timedelta_def Let_def)

text \<open>
  C3, amended. One advance takes two successive clock readings \<open>c\<^sub>1\<close>, \<open>c\<^sub>2\<close> and samples the
  noise field at \<open>(x * 0.01, y * 0.01, c\<^sub>1 * 0.0001 - z)\<close> for \<open>px\<close> and at
  \<open>(y * 0.01, x * 0.01, c\<^sub>2 * 0.0001 - z)\<close> for \<open>py\<close>. The increments become \<open>xinc + px\<close> and
  \<open>yinc + py\<close>, the previous position becomes the old position, the position moves by the
  new increments, and nothing is clamped; anchor and \<open>z\<close> stay.
\<close>

theorem PLine_perlin_move_post:
  "PLine_perlin_move pnoise3 clock p n =
     (p\<lparr>xinc := xinc p + pnoise3 (x p * 0.01) (y p * 0.01) (clock n * 0.0001 - real_of_int (z p)),
        yinc := yinc p
                + pnoise3 (y p * 0.01) (x p * 0.01) (clock (Suc n) * 0.0001 - real_of_int (z p)),
        xi := x p, yi := y p,
        x := x p + (xinc p
                + pnoise3 (x p * 0.01) (y p * 0.01) (clock n * 0.0001 - real_of_int (z p))),
        y := y p + (yinc p
                + pnoise3 (y p * 0.01) (x p * 0.01) (clock (Suc n) * 0.0001 - real_of_int (z p)))\<rparr>,
      n + 2)"
  by (simp add: PLine_perlin_move_def timedelta_def Let_def)

text \<open>When the clock does not move between the two readings, the claimed post-state is met.\<close>

lemma PLine_perlin_move_same_reading:
  "clock (Suc n) = clock n \<Longrightarrow>
     fst (PLine_perlin_move pnoise3 clock p n) = advance_claimed pnoise3 (timedelta p (clock n)) p"
  by (simp add: PLine_perlin_move_def advance_claimed_def Let_def)

section \<open>The anchor and the draw step\<close>

lemma PShape_perlin_move_obj: "obj (fst (PShape_perlin_move raster i s)) = obj s"
  by (simp add: PShape_perlin_move_def cv2_line_def Let_def split: sum.splits prod.splits)

lemma PShape_perlin_move_ticks: "ticks (fst (PShape_perlin_move raster i s)) = ticks s"
  by (simp add: PShape_perlin_move_def cv2_line_def Let_def split: sum.splits prod.splits)

lemma PLine_perlin_move_anchor:
  "xo (fst (PLine_perlin_move pnoise3 clock p n)) = xo p"
  "yo (fst (PLine_perlin_move pnoise3 clock p n)) = yo p"
  "z (fst (PLine_perlin_move pnoise3 clock p n)) = z p"
  by (simp_all add: PLine_perlin_move_def Let_def)

lemma advance_n_anchor:
  "xo (fst (advance_n pnoise3 clock k p n)) = xo p
   \<and> yo (fst (advance_n pnoise3 clock k p n)) = yo p"
proof (induction k arbitrary: p n)
  case 0
  show ?case by simp
next
  case (Suc k)
  obtain p1 n1 where st: "PLine_perlin_move pnoise3 clock p n = (p1, n1)"
    by (cases "PLine_perlin_move pnoise3 clock p n")
  have "xo p1 = xo p" "yo p1 = yo p"
    using PLine_perlin_move_anchor(1,2)[of pnoise3 clock p n] st by simp_all
  with Suc.IH[of p1 n1] st show ?case by simp
qed

lemma PLine_call_anchors:
  "map xo (plines (obj (PLine_call pnoise3 clock i s))) = map xo (plines (obj s))"
  "map yo (plines (obj (PLine_call pnoise3 clock i s))) = map yo (plines (obj s))"
proof -
  obtain p n where st: "PLine_perlin_move pnoise3 clock (plines (obj s) ! i) (ticks s) = (p, n)"
    by (cases "PLine_perlin_move pnoise3 clock (plines (obj s) ! i) (ticks s)")
  have a: "xo p = xo (plines (obj s) ! i)" "yo p = yo (plines (obj s) ! i)"
    using PLine_perlin_move_anchor(1,2)[of pnoise3 clock "plines (obj s) ! i" "ticks s"] st
    by simp_all
  show "map xo (plines (obj (PLine_call pnoise3 clock i s))) = map xo (plines (obj s))"
    using a(1) st by (cases "i < length (plines (obj s))")
      (simp_all add: PLine_call_def map_update list_update_same_conv list_update_beyond)
  show "map yo (plines (obj (PLine_call pnoise3 clock i s))) = map yo (plines (obj s))"
    using a(2) st by (cases "i < length (plines (obj s))")
      (simp_all add: PLine_call_def map_update list_update_same_conv list_update_beyond)
qed

lemma call_loop_anchors:
  "map xo (plines (obj (fst (call_loop raster pnoise3 clock js s)))) = map xo (plines (obj s))
   \<and> map yo (plines (obj (fst (call_loop raster pnoise3 clock js s)))) = map yo (plines (obj s))"
proof (induction js arbitrary: s)
  case Nil
  show ?case by simp
next
  case (Cons i rest)
  obtain s1 r where st: "PShape_perlin_move raster i s = (s1, r)"
    by (cases "PShape_perlin_move raster i s")
  have o: "obj s1 = obj s" using PShape_perlin_move_obj[of raster i s] st by simp
  show ?case
  proof (cases r)
    case None
    with st o Cons.IH[of "PLine_call pnoise3 clock i s1"]
      PLine_call_anchors[of pnoise3 clock i s1]
    show ?thesis by simp
  next
    case (Some e)
    with st o show ?thesis by simp
  qed
qed

text \<open>
  C6. A point is built with its anchor \<open>(xo, yo)\<close> at the centre it is given; any number of
  advances leaves the anchor as it was; and a tick of the owning \<^verbatim>\<open>PShape\<close>, whether it
  completes or is ended by an exception, leaves the anchor of every owned point as it was.
\<close>

theorem anchor_never_changes:
  "xo (fst (PLine_init rng c k0)) = fst c \<and> yo (fst (PLine_init rng c k0)) = snd c
   \<and> xo (fst (advance_n pnoise3 clock k p n)) = xo p
   \<and> yo (fst (advance_n pnoise3 clock k p n)) = yo p
   \<and> map xo (plines (obj (fst (PShape_call raster pnoise3 clock s)))) = map xo (plines (obj s))
   \<and> map yo (plines (obj (fst (PShape_call raster pnoise3 clock s)))) = map yo (plines (obj s))"
  using advance_n_anchor[of pnoise3 clock k p n]
    call_loop_anchors[of raster pnoise3 clock "[0..<length (plines (obj s))]" s]
  by (simp add: PShape_call_def PLine_init_def randint_def Let_def)

text \<open>
  C10. The draw step \<^verbatim>\<open>PShape.perlin_move(pline)\<close> returns a state in which the \<^verbatim>\<open>PShape\<close>
  object, with its list of points, its bounds and its shape tag, is the one it started
  from, so every field of the point at index \<open>i\<close> is unchanged, and no clock reading has
  been taken; this holds whether a segment was drawn, nothing was drawn, or an exception
  was raised. Only the canvas and the list of drawn segments can differ.
\<close>

theorem draw_step_frame:
  "obj (fst (PShape_perlin_move raster i s)) = obj s
   \<and> plines (obj (fst (PShape_perlin_move raster i s))) ! i = plines (obj s) ! i
   \<and> ticks (fst (PShape_perlin_move raster i s)) = ticks s"
  by (simp add: PShape_perlin_move_obj PShape_perlin_move_ticks)

section \<open>The tick\<close>

lemma rgba2rgb_white_total:
  "\<exists>col. rgba2rgb [255, 255, 255, 0.2] [a, b, c] None = Inr col"
  by (simp add: rgba2rgb_def truthy_def Let_def)

lemma py_int_nonneg: "0 \<le> r \<Longrightarrow> 0 \<le> py_int r"
  by (simp add: py_int_def)

lemma py_int_less: "0 \<le> r \<Longrightarrow> r < real n \<Longrightarrow> py_int r < int n"
  by (simp add: py_int_def floor_less_iff)

lemma canvas_get_inside:
  "0 \<le> i \<Longrightarrow> i < int (shape0 c) \<Longrightarrow> 0 \<le> j \<Longrightarrow> j < int (shape1 c) \<Longrightarrow>
     canvas_get c i j = Inr (pixel c (nat i) (nat j))"
  by (simp add: canvas_get_def np_index_def)

text \<open>
  The draw step for a point whose previous position is below the far edges of the canvas:
  a segment from the previous to the current position is drawn exactly when the previous
  position is within the canvas bounds on both axes and within the region, and no exception
  is raised.
\<close>

lemma PShape_perlin_move_draws_iff:
  assumes "xi (plines (obj s) ! i) < real (shape1 (CANVAS s))"
    and "yi (plines (obj s) ! i) < real (shape0 (CANVAS s))"
  shows "\<exists>col. PShape_perlin_move raster i s =
     (if (0 \<le> xi (plines (obj s) ! i) \<and> xi (plines (obj s) ! i) \<le> real (shape0 (CANVAS s)))
          \<and> (0 \<le> yi (plines (obj s) ! i) \<and> yi (plines (obj s) ! i) \<le> real (shape1 (CANVAS s)))
          \<and> within_PLine (obj s) (plines (obj s) ! i)
      then (cv2_line raster
              \<lparr>pt1 = (xi (plines (obj s) ! i), yi (plines (obj s) ! i)),
               pt2 = (x (plines (obj s) ! i), y (plines (obj s) ! i)),
               color = col, thickness = 1\<rparr> s, None)
      else (s, None))"
proof (cases "(0 \<le> xi (plines (obj s) ! i) \<and> xi (plines (obj s) ! i) \<le> real (shape0 (CANVAS s)))
          \<and> (0 \<le> yi (plines (obj s) ! i) \<and> yi (plines (obj s) ! i) \<le> real (shape1 (CANVAS s)))
          \<and> within_PLine (obj s) (plines (obj s) ! i)")
  case False
  then show ?thesis
    by (auto simp: PShape_perlin_move_def within_float64_def Let_def)
next
  case True
  let ?p = "plines (obj s) ! i"
  have g: "canvas_get (CANVAS s) (py_int (yi ?p)) (py_int (xi ?p))
             = Inr (pixel (CANVAS s) (nat (py_int (yi ?p))) (nat (py_int (xi ?p))))"
    using True assms by (intro canvas_get_inside py_int_nonneg py_int_less) simp_all
  obtain c0 c1 c2 where px: "pixel (CANVAS s) (nat (py_int (yi ?p))) (nat (py_int (xi ?p))) = (c0, c1, c2)"
    by (cases "pixel (CANVAS s) (nat (py_int (yi ?p))) (nat (py_int (xi ?p)))")
  obtain col where col: "rgba2rgb [255, 255, 255, 0.2]
       [real_of_int (uint c0), real_of_int (uint c1), real_of_int (uint c2)] None = Inr col"
    using rgba2rgb_white_total by blast
  show ?thesis
    using True g px col
    by (intro exI[of _ col]) (simp add: PShape_perlin_move_def within_float64_def Let_def)
qed

text \<open>A previous position outside the canvas bounds on either axis: nothing is drawn.\<close>

lemma no_draw_outside_canvas:
  assumes "\<not> (0 \<le> xi (plines (obj s) ! i) \<and> xi (plines (obj s) ! i) \<le> real (shape0 (CANVAS s))
             \<and> 0 \<le> yi (plines (obj s) ! i) \<and> yi (plines (obj s) ! i) \<le> real (shape1 (CANVAS s)))"
  shows "PShape_perlin_move raster i s = (s, None)"
  using assms by (auto simp: PShape_perlin_move_def within_float64_def Let_def)

text \<open>
  One tick of \<open>inside_state\<close>: the segment of the motion that already happened is drawn, in
  white at alpha 0.2 over black, and the point is advanced afterwards.
\<close>

lemma tick_inside:
  "lines_drawn (fst (PShape_call (\<lambda>seg px. px) clamp_noise (\<lambda>n. 1000 + real n) inside_state))
     = [\<lparr>pt1 = (500, 500), pt2 = (503, 496), color = (51, 51, 51), thickness = 1\<rparr>]
   \<and> snd (PShape_call (\<lambda>seg px. px) clamp_noise (\<lambda>n. 1000 + real n) inside_state) = None
   \<and> map xi (plines (obj (fst (PShape_call (\<lambda>seg px. px) clamp_noise (\<lambda>n. 1000 + real n)
                                  inside_state)))) = [503]
   \<and> map x (plines (obj (fst (PShape_call (\<lambda>seg px. px) clamp_noise (\<lambda>n. 1000 + real n)
                                 inside_state)))) = [506.1]"
  by (simp add: inside_state_def PShape_call_def PShape_perlin_move_def PLine_call_def
      PLine_perlin_move_def timedelta_def clamp_noise_def start_point_def canvas1000_def
      within_float64_def within_PLine_def canvas_get_def np_index_def py_int_def rgba2rgb_def
      truthy_def cv2_line_def Let_def)

text \<open>In the loop, a draw step that raised nothing is followed by the advance of that point.\<close>

lemma call_loop_advances:
  "PShape_perlin_move raster i s = (s1, None) \<Longrightarrow>
     call_loop raster pnoise3 clock (i # rest) s
       = call_loop raster pnoise3 clock rest (PLine_call pnoise3 clock i s1)"
  by simp

text \<open>
  C2. The claim is that every owned point whose previous position is within the canvas
  bounds and the region gets its segment drawn and is then advanced. The canvas test
  \<^verbatim>\<open>position <= bounds[1]\<close> admits the coordinate 1000, and the pixel read
  \<^verbatim>\<open>CANVAS[int(pline.yi)][int(pline.xi)]\<close> then raises IndexError: for a fresh shape centred
  at \<open>(1000, 500)\<close> all three checks are true, and the tick ends with IndexError in the state
  it started from, with nothing drawn and the point not advanced.
\<close>

theorem tick_raises_on_canvas_edge:
  "PShape_within (obj (border_state rng))
       [Float64 (xi (hd (plines (obj (border_state rng))))), Tuple2 0 (real (shape0 canvas1000))] = Inr True
   \<and> PShape_within (obj (border_state rng))
       [Float64 (yi (hd (plines (obj (border_state rng))))), Tuple2 0 (real (shape1 canvas1000))] = Inr True
   \<and> PShape_within (obj (border_state rng)) [PLineObj (hd (plines (obj (border_state rng))))] = Inr True
   \<and> PShape_call raster pnoise3 clock (border_state rng) = (border_state rng, Some IndexError)"
  by (simp add: border_state_def PShape_init_def PLine_init_def randint_def Let_def
      canvas1000_def within_float64_def within_PLine_def PShape_call_def PShape_perlin_move_def
      canvas_get_def np_index_def py_int_def)


section \<open>grid\<close>

lemma randint_range:
  assumes "lo < hi"
  shows "lo \<le> fst (randint rng lo hi k) \<and> fst (randint rng lo hi k) < hi"
proof -
  from assms have "0 < hi - lo" by simp
  then have "0 \<le> int (rng k) mod (hi - lo)" "int (rng k) mod (hi - lo) < hi - lo"
    by (rule pos_mod_sign, rule pos_mod_bound)
  then show ?thesis by (simp add: randint_def)
qed

lemma PLine_init_start:
  "PLine_init rng center k = (p, k1) \<Longrightarrow>
     xo p = fst center \<and> yo p = snd center \<and> x p = fst center \<and> y p = snd center"
  by (auto simp: PLine_init_def randint_def Let_def)

lemma make_plines_start:
  "make_plines rng center m k = (ps, k1) \<Longrightarrow>
     list_all (\<lambda>p. xo p = fst center \<and> yo p = snd center \<and> x p = fst center \<and> y p = snd center) ps"
proof (induction m arbitrary: k ps k1)
  case 0
  then show ?case by simp
next
  case (Suc m)
  obtain q ka where q: "PLine_init rng (fst center, snd center) k = (q, ka)"
    by (cases "PLine_init rng (fst center, snd center) k")
  obtain qs kb where qs: "make_plines rng center m ka = (qs, kb)"
    by (cases "make_plines rng center m ka")
  from Suc.prems q qs have ps: "ps = q # qs" by simp
  from PLine_init_start[OF q] Suc.IH[OF qs] ps show ?case by simp
qed

lemma built_group:
  assumes "randint rng 20 80 k = (lines, k1)"
    and "PShape_init rng (cx, cy) (cx - hx, cx + hx) (cy - hy, cy + hy) lines shp k1 = (sh, k2)"
  shows "group_at hx hy shp (cx, cy) sh"
proof -
  from assms(1) have r: "20 \<le> lines \<and> lines < 80"
    using randint_range[of 20 80 rng k] by simp
  obtain ps kc where ps: "make_plines rng (cx, cy) (nat lines) k1 = (ps, kc)"
    by (cases "make_plines rng (cx, cy) (nat lines) k1")
  from assms(2) ps have sh: "sh = \<lparr>plines = ps, xbounds = (cx - hx, cx + hx),
      ybounds = (cy - hy, cy + hy), shape = shp\<rparr>"
    by (simp add: PShape_init_def)
  from make_plines_length_eq[OF ps] r have len: "20 \<le> length ps \<and> length ps < 80" by arith
  from make_plines_start[OF ps] len sh show ?thesis by (simp add: group_at_def)
qed

lemma grid_column_groups:
  "grid_column rng cx ys hx hy shp k = (shs, k1) \<Longrightarrow>
     list_all2 (group_at hx hy shp) (map (Pair cx) ys) shs"
proof (induction ys arbitrary: k shs k1)
  case Nil
  then show ?case by simp
next
  case (Cons cy rest)
  obtain lines ka where a: "randint rng 20 80 k = (lines, ka)"
    by (cases "randint rng 20 80 k")
  obtain sh kb where b:
    "PShape_init rng (cx, cy) (cx - hx, cx + hx) (cy - hy, cy + hy) lines shp ka = (sh, kb)"
    by (cases "PShape_init rng (cx, cy) (cx - hx, cx + hx) (cy - hy, cy + hy) lines shp ka")
  obtain more kc where c: "grid_column rng cx rest hx hy shp kb = (more, kc)"
    by (cases "grid_column rng cx rest hx hy shp kb")
  from Cons.prems a b c have shs: "shs = sh # more" by simp
  from built_group[OF a b] Cons.IH[OF c] shs show ?case by simp
qed

lemma grid_rows_groups:
  "grid_rows rng xs ys hx hy shp k = (shs, k1) \<Longrightarrow>
     list_all2 (group_at hx hy shp) (List.product xs ys) shs"
proof (induction xs arbitrary: k shs k1)
  case Nil
  then show ?case by simp
next
  case (Cons cx rest)
  obtain col ka where a: "grid_column rng cx ys hx hy shp k = (col, ka)"
    by (cases "grid_column rng cx ys hx hy shp k")
  obtain more kb where b: "grid_rows rng rest ys hx hy shp ka = (more, kb)"
    by (cases "grid_rows rng rest ys hx hy shp ka")
  from Cons.prems a b have shs: "shs = col @ more" by simp
  from grid_column_groups[OF a] Cons.IH[OF b] shs show ?case
    by (simp add: list_all2_appendI)
qed

lemma linspace_3: "linspace (0 + 200) (real (shape0 canvas1000) - 200) 3 = Inr [200, 500, 800]"
  by (simp add: linspace_def canvas1000_def eval_nat_numeral)

lemma linspace_3_cols: "linspace (0 + 200) (real (shape1 canvas1000) - 200) 3 = Inr [200, 500, 800]"
  by (simp add: linspace_def canvas1000_def eval_nat_numeral)

text \<open>
  C7. \<^verbatim>\<open>grid(n=3, margin=200)\<close> with the default half-extents 100 and kind \<^verbatim>\<open>"rectangle"\<close>, on
  the 1000 by 1000 canvas and for every outcome of the random draws, returns exactly 9
  groups, in the order of the product of \<open>[200, 500, 800]\<close> with itself; the group at each
  centre has between 20 and 79 points, all anchored there, and the bounds
  \<open>(c - 100, c + 100)\<close> on both axes.
\<close>

theorem grid_3_200:
  "\<exists>shs k1. grid canvas1000 rng (Some 3) None None (Some 200) 100 100 ''rectangle'' k = Inr (shs, k1)
     \<and> length shs = 9
     \<and> list_all2 (group_at 100 100 ''rectangle'')
          [(200, 200), (200, 500), (200, 800),
           (500, 200), (500, 500), (500, 800),
           (800, 200), (800, 500), (800, 800)] shs"
proof -
  obtain shs k1 where g:
    "grid_rows rng [200, 500, 800] [200, 500, 800] 100 100 ''rectangle'' k = (shs, k1)"
    by (cases "grid_rows rng [200, 500, 800] [200, 500, 800] 100 100 ''rectangle'' k")
  have e: "grid canvas1000 rng (Some 3) None None (Some 200) 100 100 ''rectangle'' k = Inr (shs, k1)"
    using g linspace_3 linspace_3_cols by (simp add: grid_def truthy_def)
  from grid_rows_groups[OF g]
  have l: "list_all2 (group_at 100 100 ''rectangle'')
          [(200, 200), (200, 500), (200, 800),
           (500, 200), (500, 500), (500, 800),
           (800, 200), (800, 500), (800, 800)] shs"
    by simp
  from list_all2_lengthD[OF l] have "length shs = 9" by simp
  with e l show ?thesis by blast
qed

text \<open>
  C8, as claimed: with \<open>n\<close> supplied, \<^verbatim>\<open>grid\<close> returns normally. \<^verbatim>\<open>grid(n=3)\<close> leaves \<^verbatim>\<open>margin\<close> at
  its default \<^verbatim>\<open>None\<close> and raises TypeError.
\<close>

theorem grid_without_margin_raises:
  "grid canvas1000 (\<lambda>_. 0) (Some 3) None None None 100 100 ''rectangle'' 0 = Inl TypeError"
  by (simp add: grid_def truthy_def)

lemma linspace_ok: "0 \<le> num \<Longrightarrow> \<exists>xs. linspace a b num = Inr xs"
  by (simp add: linspace_def)

lemma linspace_not_assert: "linspace a b num \<noteq> Inl AssertionError"
  by (simp add: linspace_def)

text \<open>
  C8, amended. With a margin given, \<^verbatim>\<open>grid\<close> raises its assertion exactly when \<open>n\<close> is absent
  or zero and \<open>rows\<close> or \<open>columns\<close> is absent or zero; it returns a list of groups when \<open>n\<close> is
  positive, and when \<open>n\<close> is absent or zero and \<open>rows\<close> and \<open>columns\<close> are both positive.
\<close>

theorem grid_raises_iff:
  "(grid cv rng n rows columns (Some m) hx hy shp k = Inl AssertionError
            \<longleftrightarrow> \<not> truthy n \<and> \<not> (truthy rows \<and> truthy columns))
       \<and> ((\<exists>v. n = Some v \<and> 0 < v)
            \<or> (\<not> truthy n \<and> (\<exists>r c. rows = Some r \<and> columns = Some c \<and> 0 < r \<and> 0 < c))
          \<longrightarrow> (\<exists>shs k1. grid cv rng n rows columns (Some m) hx hy shp k = Inr (shs, k1)))"
proof (intro conjI impI)
  show "grid cv rng n rows columns (Some m) hx hy shp k = Inl AssertionError
            \<longleftrightarrow> \<not> truthy n \<and> \<not> (truthy rows \<and> truthy columns)"
    using linspace_not_assert
    by (auto simp: grid_def split: sum.splits)
next
  assume h: "(\<exists>v. n = Some v \<and> 0 < v)
            \<or> (\<not> truthy n \<and> (\<exists>r c. rows = Some r \<and> columns = Some c \<and> 0 < r \<and> 0 < c))"
  then show "\<exists>shs k1. grid cv rng n rows columns (Some m) hx hy shp k = Inr (shs, k1)"
  proof
    assume "\<exists>v. n = Some v \<and> 0 < v"
    then obtain v where v: "n = Some v" "0 < v" by blast
    then have t: "truthy n" by (simp add: truthy_def)
    obtain xs where xs: "linspace (0 + m) (real (shape0 cv) - m) v = Inr xs"
      using linspace_ok[of v] v by auto
    obtain ys where ys: "linspace (0 + m) (real (shape1 cv) - m) v = Inr ys"
      using linspace_ok[of v] v by auto
    show ?thesis using v t xs ys
      by (cases "grid_rows rng xs ys hx hy shp k") (simp add: grid_def)
  next
    assume a: "\<not> truthy n \<and> (\<exists>r c. rows = Some r \<and> columns = Some c \<and> 0 < r \<and> 0 < c)"
    then obtain r c where rc: "rows = Some r" "columns = Some c" "0 < r" "0 < c" by blast
    then have t: "truthy rows" "truthy columns" by (simp_all add: truthy_def)
    obtain xs where xs: "linspace (0 + m) (real (shape0 cv) - m) c = Inr xs"
      using linspace_ok[of c] rc by auto
    obtain ys where ys: "linspace (0 + m) (real (shape1 cv) - m) r = Inr ys"
      using linspace_ok[of r] rc by auto
    show ?thesis using a rc t xs ys
      by (cases "grid_rows rng xs ys hx hy shp k") (simp add: grid_def)
  qed
qed

theorem grid_raises_iff_witness:
  "grid canvas1000 (\<lambda>_. 0) None (Some 2) None (Some 200) 100 100 ''rectangle'' 0 = Inl AssertionError
   \<and> (\<exists>shs k1. grid canvas1000 (\<lambda>_. 0) (Some 3) None None (Some 200) 100 100 ''rectangle'' 0
                  = Inr (shs, k1))
   \<and> (\<exists>shs k1. grid canvas1000 (\<lambda>_. 0) None (Some 2) (Some 4) (Some 200) 100 100 ''rectangle'' 0
                  = Inr (shs, k1))"
proof -
  have a: "grid canvas1000 (\<lambda>_. 0) None (Some 2) None (Some 200) 100 100 ''rectangle'' 0
             = Inl AssertionError"
    using grid_raises_iff[of canvas1000 "\<lambda>_. 0" None "Some 2" None 200 100 100 "''rectangle''" 0]
    by (simp add: truthy_def)
  have b: "\<exists>shs k1. grid canvas1000 (\<lambda>_. 0) (Some 3) None None (Some 200) 100 100 ''rectangle'' 0
                  = Inr (shs, k1)"
    using grid_raises_iff[of canvas1000 "\<lambda>_. 0" "Some 3" None None 200 100 100 "''rectangle''" 0]
    by simp
  have c: "\<exists>shs k1. grid canvas1000 (\<lambda>_. 0) None (Some 2) (Some 4) (Some 200) 100 100 ''rectangle'' 0
                  = Inr (shs, k1)"
    using grid_raises_iff[of canvas1000 "\<lambda>_. 0" None "Some 2" "Some 4" 200 100 100 "''rectangle''" 0]
    by (simp add: truthy_def)
  from a b c show ?thesis by blast
qed

end
